theory Spec2Isabelle
  imports
    Main
    "HOL-Library.Char_ord"
    "HOL-Library.List_Lexorder"
    "HOL-Library.Option_ord"
    "HOL-Library.AList"
begin

unbundle bit_operations_syntax

section \<open>Context manglers of \<^verbatim>\<open>riscos/contextmangler.py\<close>\<close>

text \<open>
  The module turns the opaque context a RISC OS client sees into an internal enumeration
  offset and back. Python integers are unbounded, so offsets and contexts are \<^typ>\<open>int\<close>;
  Python's \<^verbatim>\<open>%\<close> is \<^term>\<open>(mod)\<close> on \<^typ>\<open>int\<close> (the result takes the sign of the divisor),
  \<^verbatim>\<open>&\<close>, \<^verbatim>\<open>|\<close>, \<^verbatim>\<open>^\<close>, \<^verbatim>\<open><<\<close> and \<^verbatim>\<open>>>\<close> are the two's complement bit operations of
  \<^typ>\<open>int\<close>. Every \<^verbatim>\<open>raise\<close> is a value \<open>Inl e\<close> of the result type.
\<close>

subsection \<open>Errors\<close>

text \<open>
  One constructor for each exception the module can raise:
  \<^item> \<open>NotKnown name\<close>: \<^verbatim>\<open>ValueError("Context mangler '{}' is not known".format(name))\<close>;
  \<^item> \<open>InvalidBiased c\<close>: \<^verbatim>\<open>ValueError("Invalid context value {} for biased mangler".format(c))\<close>;
  \<^item> \<open>InvalidMultiplier c\<close>:
    \<^verbatim>\<open>ValueError("Invalid context value {} for multiplier mangler".format(c))\<close>;
  \<^item> \<open>ConfigurationError value names\<close>: \<^verbatim>\<open>ConfigurationError\<close> with the rejected value and
    the sorted known names of its message;
  \<^item> \<open>ZeroDivisionError\<close>: Python's own, from \<^verbatim>\<open>%\<close> or \<^verbatim>\<open>/\<close> by zero;
  \<^item> \<open>NegativeShiftCount\<close>: Python's \<^verbatim>\<open>ValueError("negative shift count")\<close> from \<^verbatim>\<open><<\<close>.
\<close>

datatype error =
    NotKnown string
  | InvalidBiased int
  | InvalidMultiplier int
  | ConfigurationError string "string list"
  | ZeroDivisionError
  | NegativeShiftCount

subsection \<open>The six mangler classes and their parameters\<close>

text \<open>
  The classes registered by the module, in the order of their definition. The abstract
  \<^verbatim>\<open>ContextManglerBase\<close> is never registered and is not a value of this type.
\<close>

datatype mangler_class =
    ContextManglerIdentity
  | ContextManglerBiased
  | ContextManglerEOR
  | ContextManglerReverse
  | ContextManglerDescending
  | ContextManglerMultiplier

text \<open>
  The parameters an instance holds: the class attribute (\<^verbatim>\<open>base\<close>, \<^verbatim>\<open>eor\<close>, \<^verbatim>\<open>nbits\<close>,
  \<^verbatim>\<open>limit\<close>, \<^verbatim>\<open>multiplier\<close> and \<^verbatim>\<open>bias\<close>), or the instance attribute that the constructor
  sets over it from its positional arguments.
\<close>

datatype mangler =
    Identity
  | Biased (base: int)
  | EOR (eor: int)
  | Reverse (nbits: int)
  | Descending (limit: int)
  | Multiplier (multiplier: int) (bias: int)

text \<open>
  The subclass constructors: \<^verbatim>\<open>if args: self.x = int(args[0]); args = args[1:]\<close>, once for
  each parameter, over the class attribute as default.
\<close>

fun params :: "mangler_class \<Rightarrow> int list \<Rightarrow> mangler" where
  "params ContextManglerIdentity args = Identity"
| "params ContextManglerBiased args = Biased (case args of [] \<Rightarrow> 0x76543 | a # _ \<Rightarrow> a)"
| "params ContextManglerEOR args = EOR (case args of [] \<Rightarrow> 0x76543 | a # _ \<Rightarrow> a)"
| "params ContextManglerReverse args = Reverse (case args of [] \<Rightarrow> 17 | a # _ \<Rightarrow> a)"
| "params ContextManglerDescending args = Descending (case args of [] \<Rightarrow> 0x76543 | a # _ \<Rightarrow> a)"
| "params ContextManglerMultiplier args =
     (case args of
        [] \<Rightarrow> Multiplier 24 0x3800000
      | [m] \<Rightarrow> Multiplier m 0x3800000
      | m # b # _ \<Rightarrow> Multiplier m b)"

subsection \<open>\<^verbatim>\<open>mangle\<close> and \<^verbatim>\<open>unmangle\<close>\<close>

text \<open>
  \<^verbatim>\<open>int(a / b)\<close>: the quotient cut towards zero, which is what \<^verbatim>\<open>int()\<close> makes of the true
  quotient. The true quotient is a float, so this definition is the code only where that
  float is exact enough: for a dividend from 0 to below \<open>2^32\<close> and any positive divisor, and
  for a quotient that is an integer below \<open>2^53\<close>. Every theorem below that reaches a division
  keeps its operands in that range; beyond it the code rounds, or raises \<^verbatim>\<open>OverflowError\<close>.
  With operands of the same sign this is also the floor of the quotient.
\<close>

definition int_div :: "int \<Rightarrow> int \<Rightarrow> error + int" where
  "int_div a b =
     (if b = 0 then Inl ZeroDivisionError else Inr (sgn a * sgn b * (\<bar>a\<bar> div \<bar>b\<bar>)))"

text \<open>
  One round of the loop of \<^verbatim>\<open>ContextManglerReverse.mangle\<close>:
  \<^verbatim>\<open>value = value << 1; if offset & 1: value |= 1; offset = offset >> 1\<close>.
\<close>

definition reverse_step :: "int \<times> int \<Rightarrow> int \<times> int" where
  "reverse_step = (\<lambda>(v, offset).
     (let v1 = push_bit 1 v;
          v2 = (if offset AND 1 \<noteq> 0 then v1 OR 1 else v1)
      in (v2, drop_bit 1 offset)))"

text \<open>\<^verbatim>\<open>for n in range(self.nbits)\<close>: no round at all when \<^verbatim>\<open>nbits\<close> is negative.\<close>

definition reverse_loop :: "int \<Rightarrow> int \<Rightarrow> int \<times> int" where
  "reverse_loop n offset = (reverse_step ^^ nat n) (0, offset)"

fun mangle :: "mangler \<Rightarrow> int \<Rightarrow> error + int" where
  "mangle Identity offset = Inr offset"
| "mangle (Biased b) offset = Inr (offset + b)"
| "mangle (EOR e) offset = Inr (1 + (offset XOR e))"
| "mangle (Reverse n) offset =
     (case reverse_loop n offset of
        (v, rest) \<Rightarrow>
          if n < 0 then Inl NegativeShiftCount
          else Inr (v OR push_bit (nat n) rest))"
| "mangle (Descending l) offset =
     (if l = 0 then Inl ZeroDivisionError
      else case int_div offset l of
        Inl e \<Rightarrow> Inl e
      | Inr q \<Rightarrow> Inr ((l - offset mod l) + q * l + 1))"
| "mangle (Multiplier m b) offset = Inr (b + offset * m)"

fun unmangle :: "mangler \<Rightarrow> int \<Rightarrow> error + int" where
  "unmangle Identity context = Inr context"
| "unmangle (Biased b) context =
     (if context > 0 \<and> context < b then Inl (InvalidBiased context)
      else Inr (context - b))"
| "unmangle (EOR e) context = Inr ((context - 1) XOR e)"
| "unmangle (Reverse n) context = mangle (Reverse n) context"
| "unmangle (Descending l) context =
     (let c = context - 1
      in if l = 0 then Inl ZeroDivisionError
         else case int_div c l of
           Inl e \<Rightarrow> Inl e
         | Inr q \<Rightarrow> Inr ((l - c mod l) + q * l))"
| "unmangle (Multiplier m b) context =
     (let c = context - b
      in if c < 0 then Inl (InvalidMultiplier c)
         else if m = 0 then Inl ZeroDivisionError
         else if c mod m \<noteq> 0 then Inl (InvalidMultiplier c)
         else int_div c m)"

subsection \<open>Instances\<close>

text \<open>An instance: the parameters of its scheme and the attribute \<^verbatim>\<open>offset\<close>.\<close>

record context_mangler =
  scheme :: mangler
  offset :: int

text \<open>
  \<^verbatim>\<open>ContextManglerBase.__init__\<close>: 0 is the start, -1 and \<^verbatim>\<open>0xFFFFFFFF\<close> the end; any other
  context, with \<open>2^32\<close> added when negative, goes through \<^verbatim>\<open>unmangle\<close>, whose exception
  leaves no instance.
\<close>

definition base_init :: "mangler \<Rightarrow> int \<Rightarrow> error + context_mangler" where
  "base_init p context =
     (if context = 0 then Inr \<lparr>scheme = p, offset = 0\<rparr>
      else if context = - 1 \<or> context = 0xFFFFFFFF then Inr \<lparr>scheme = p, offset = - 1\<rparr>
      else
        (let context' = (if context < 0 then context + push_bit 32 1 else context)
         in case unmangle p context' of
              Inl e \<Rightarrow> Inl e
            | Inr off \<Rightarrow> Inr \<lparr>scheme = p, offset = off\<rparr>))"

text \<open>Calling a class: \<^verbatim>\<open>mangler(context, *args)\<close>.\<close>

definition new :: "mangler_class \<Rightarrow> int \<Rightarrow> int list \<Rightarrow> error + context_mangler" where
  "new cls context args = base_init (params cls args) context"

text \<open>\<^verbatim>\<open>__iadd__\<close>: \<^verbatim>\<open>context += value\<close>, which never leaves the terminal state.\<close>

definition iadd :: "context_mangler \<Rightarrow> int \<Rightarrow> context_mangler" where
  "iadd c v = (if offset c = - 1 then c else c\<lparr>offset := offset c + v\<rparr>)"

definition finish :: "context_mangler \<Rightarrow> context_mangler" where
  "finish c = c\<lparr>offset := - 1\<rparr>"

text \<open>The property \<^verbatim>\<open>opaque\<close>: 0 and -1 are returned as they are.\<close>

definition opaque :: "context_mangler \<Rightarrow> error + int" where
  "opaque c =
     (if offset c = 0 \<or> offset c = - 1 then Inr (offset c)
      else mangle (scheme c) (offset c))"

subsection \<open>The registry\<close>

text \<open>
  \<^verbatim>\<open>str.lower()\<close> on the ASCII letters, which are all that class names and mangler names
  are made of here; any other character is kept.
\<close>

definition lower_char :: "char \<Rightarrow> char" where
  "lower_char c =
     (if CHR ''A'' \<le> c \<and> c \<le> CHR ''Z'' then char_of (of_char c + (32::nat)) else c)"

definition lower :: "string \<Rightarrow> string" where
  "lower s = map lower_char s"

text \<open>\<^verbatim>\<open>mangler.__name__\<close>, the name of the class in the source.\<close>

fun dunder_name :: "mangler_class \<Rightarrow> string" where
  "dunder_name ContextManglerIdentity = ''ContextManglerIdentity''"
| "dunder_name ContextManglerBiased = ''ContextManglerBiased''"
| "dunder_name ContextManglerEOR = ''ContextManglerEOR''"
| "dunder_name ContextManglerReverse = ''ContextManglerReverse''"
| "dunder_name ContextManglerDescending = ''ContextManglerDescending''"
| "dunder_name ContextManglerMultiplier = ''ContextManglerMultiplier''"

text \<open>
  The state the module mutates: the dictionary \<^verbatim>\<open>manglers\<close>, as an association list in
  insertion order, and the attribute \<^verbatim>\<open>name\<close> of each class, \<^verbatim>\<open>None\<close> (inherited from the
  base class) until \<^verbatim>\<open>register_context_mangler\<close> sets it.
\<close>

record registry =
  manglers :: "(string \<times> mangler_class) list"
  class_name :: "mangler_class \<Rightarrow> string option"

definition register_context_mangler :: "mangler_class \<Rightarrow> registry \<Rightarrow> registry" where
  "register_context_mangler m r =
     (case class_name r m of
        Some (c # cs) \<Rightarrow> r\<lparr>manglers := AList.update (lower (c # cs)) m (manglers r)\<rparr>
      | _ \<Rightarrow>
          (let n = dunder_name m;
               key = (if take 14 n = ''ContextMangler'' then drop 14 n else n)
           in r\<lparr>manglers := AList.update (lower key) m (manglers r),
                class_name := (class_name r)(m := Some n)\<rparr>))"

text \<open>The module once imported: the six decorated classes, registered in source order.\<close>

definition module_registry :: registry where
  "module_registry =
     fold register_context_mangler
       [ContextManglerIdentity, ContextManglerBiased, ContextManglerEOR,
        ContextManglerReverse, ContextManglerDescending, ContextManglerMultiplier]
       \<lparr>manglers = [], class_name = (\<lambda>_. None)\<rparr>"

definition find_context_mangler :: "registry \<Rightarrow> string \<Rightarrow> error + mangler_class" where
  "find_context_mangler r nm =
     (case map_of (manglers r) (lower nm) of
        None \<Rightarrow> Inl (NotKnown nm)
      | Some m \<Rightarrow> Inr m)"

definition create_context_mangler ::
  "registry \<Rightarrow> string \<Rightarrow> int \<Rightarrow> int list \<Rightarrow> error + context_mangler" where
  "create_context_mangler r nm context args =
     (case find_context_mangler r nm of
        Inl e \<Rightarrow> Inl e
      | Inr m \<Rightarrow> new m context args)"

text \<open>
  \<^verbatim>\<open>sorted(manglers.values(), key=lambda mangler: mangler.name)\<close>: a stable sort on the
  class attribute, strings compared character by character.
\<close>

definition list_context_manglers :: "registry \<Rightarrow> mangler_class list" where
  "list_context_manglers r = sort_key (class_name r) (map snd (manglers r))"

text \<open>
  \<^verbatim>\<open>ContextManglerName\<close>: \<^verbatim>\<open>value in manglers\<close> looks the value up as it is given; the
  error carries \<^verbatim>\<open>sorted(manglers)\<close>, the sorted keys.
\<close>

definition ContextManglerName :: "registry \<Rightarrow> string \<Rightarrow> error + string" where
  "ContextManglerName r v =
     (if v \<in> set (map fst (manglers r)) then Inr v
      else Inl (ConfigurationError v (sort (map fst (manglers r)))))"

subsection \<open>The smoke test of \<^verbatim>\<open>test_contextmangler.py\<close>\<close>

text \<open>
  The body of the loop of \<^verbatim>\<open>test()\<close>, \<open>n\<close> more times from the instance \<open>c\<close>: each step
  records \<^verbatim>\<open>context.offset\<close>, \<^verbatim>\<open>context.opaque\<close> and the offset of
  \<^verbatim>\<open>mangler(context.opaque)\<close>, then does \<^verbatim>\<open>context += 1\<close>.
\<close>

fun test_steps ::
  "mangler_class \<Rightarrow> nat \<Rightarrow> context_mangler \<Rightarrow> error + (int \<times> int \<times> int) list" where
  "test_steps cls 0 c = Inr []"
| "test_steps cls (Suc n) c =
     (case opaque c of
        Inl e \<Rightarrow> Inl e
      | Inr opq \<Rightarrow>
          (case new cls opq [] of
             Inl e \<Rightarrow> Inl e
           | Inr newcontext \<Rightarrow>
               (case test_steps cls n (iadd c 1) of
                  Inl e \<Rightarrow> Inl e
                | Inr rest \<Rightarrow> Inr ((offset c, opq, offset newcontext) # rest))))"

text \<open>\<^verbatim>\<open>context = mangler(0)\<close>, then the eight steps of \<^verbatim>\<open>range(8)\<close>.\<close>

definition test :: "mangler_class \<Rightarrow> error + (int \<times> int \<times> int) list" where
  "test cls =
     (case new cls 0 [] of
        Inl e \<Rightarrow> Inl e
      | Inr c \<Rightarrow> test_steps cls 8 c)"

subsection \<open>Round trips and call sequences\<close>

text \<open>\<^verbatim>\<open>unmangle(mangle(offset))\<close>, with the exception of either call passed on.\<close>

definition roundtrip :: "mangler \<Rightarrow> int \<Rightarrow> error + int" where
  "roundtrip p offs = (case mangle p offs of Inl e \<Rightarrow> Inl e | Inr c \<Rightarrow> unmangle p c)"

text \<open>
  What a caller does to an instance after its construction: \<^verbatim>\<open>context += d\<close> or
  \<^verbatim>\<open>context.finish()\<close>.
\<close>

datatype call = Advance int | Finish

fun apply_call :: "context_mangler \<Rightarrow> call \<Rightarrow> context_mangler" where
  "apply_call c (Advance d) = iadd c d"
| "apply_call c Finish = finish c"

text \<open>An offset as the data model describes it: a position from 0 on, or the marker -1.\<close>

definition valid_offset :: "int \<Rightarrow> bool" where
  "valid_offset x = (0 \<le> x \<or> x = - 1)"

text \<open>
  The parameters under which \<^verbatim>\<open>unmangle\<close> gives no negative offset: any \<^verbatim>\<open>base\<close> and any
  \<^verbatim>\<open>nbits\<close>, an \<^verbatim>\<open>eor\<close> mask, a \<^verbatim>\<open>limit\<close> and a \<^verbatim>\<open>multiplier\<close> that are not negative. The
  \<^verbatim>\<open>bias\<close> is kept from \<open>- 2^52\<close> up, so that \<^verbatim>\<open>context - bias\<close> of a 32-bit context stays below
  \<open>2^53\<close>, where \<^verbatim>\<open>int(context / multiplier)\<close> is exact.
\<close>

fun param_range :: "mangler \<Rightarrow> bool" where
  "param_range Identity = True"
| "param_range (Biased b) = True"
| "param_range (EOR e) = (0 \<le> e)"
| "param_range (Reverse n) = True"
| "param_range (Descending l) = (0 \<le> l)"
| "param_range (Multiplier m b) = (0 \<le> m \<and> - 4503599627370496 \<le> b)"


section \<open>Properties\<close>

subsection \<open>The registry after import\<close>

lemma manglers_module_registry:
  "manglers module_registry =
     [(''identity'', ContextManglerIdentity), (''biased'', ContextManglerBiased),
      (''eor'', ContextManglerEOR), (''reverse'', ContextManglerReverse),
      (''descending'', ContextManglerDescending), (''multiplier'', ContextManglerMultiplier)]"
  by code_simp

text \<open>
  C6. Lookup lowers the name it is given, so \<^verbatim>\<open>find_context_mangler("IDENTITY")\<close> and
  \<^verbatim>\<open>find_context_mangler("identity")\<close> return the same class; an unknown name raises the
  "is not known" \<^verbatim>\<open>ValueError\<close>; and \<^verbatim>\<open>list_context_manglers()\<close> is exactly the six classes,
  in the order of their \<^verbatim>\<open>name\<close> attributes.
\<close>

theorem registry_lookup:
  "find_context_mangler module_registry ''IDENTITY'' = Inr ContextManglerIdentity \<and>
   find_context_mangler module_registry ''identity'' = Inr ContextManglerIdentity \<and>
   find_context_mangler module_registry ''nope'' = Inl (NotKnown ''nope'') \<and>
   list_context_manglers module_registry =
     [ContextManglerBiased, ContextManglerDescending, ContextManglerEOR,
      ContextManglerIdentity, ContextManglerMultiplier, ContextManglerReverse] \<and>
   map (class_name module_registry) (list_context_manglers module_registry) =
     [Some ''ContextManglerBiased'', Some ''ContextManglerDescending'',
      Some ''ContextManglerEOR'', Some ''ContextManglerIdentity'',
      Some ''ContextManglerMultiplier'', Some ''ContextManglerReverse''] \<and>
   sorted (map (class_name module_registry) (list_context_manglers module_registry))"
  by code_simp

text \<open>
  C7. The validator \<^verbatim>\<open>ContextManglerName\<close> tests \<^verbatim>\<open>value in manglers\<close> without lowering
  the value, while the keys are lower case: it raises \<^verbatim>\<open>ConfigurationError\<close> for
  \<^verbatim>\<open>"IDENTITY"\<close>, a name that \<^verbatim>\<open>find_context_mangler\<close> resolves, and accepts \<^verbatim>\<open>"identity"\<close>.
\<close>

theorem validator_rejects_upper_case:
  "find_context_mangler module_registry ''IDENTITY'' = Inr ContextManglerIdentity \<and>
   ContextManglerName module_registry ''IDENTITY'' =
     Inl (ConfigurationError ''IDENTITY''
           [''biased'', ''descending'', ''eor'', ''identity'', ''multiplier'', ''reverse'']) \<and>
   ContextManglerName module_registry ''identity'' = Inr ''identity''"
  by code_simp

subsection \<open>The smoke test\<close>

lemma test_traces:
  "test ContextManglerIdentity =
     Inr [(0, 0, 0), (1, 1, 1), (2, 2, 2), (3, 3, 3), (4, 4, 4), (5, 5, 5), (6, 6, 6),
          (7, 7, 7)]"
  "test ContextManglerBiased =
     Inr [(0, 0, 0), (1, 484676, 1), (2, 484677, 2), (3, 484678, 3), (4, 484679, 4),
          (5, 484680, 5), (6, 484681, 6), (7, 484682, 7)]"
  "test ContextManglerEOR =
     Inr [(0, 0, 0), (1, 484675, 1), (2, 484674, 2), (3, 484673, 3), (4, 484680, 4),
          (5, 484679, 5), (6, 484678, 6), (7, 484677, 7)]"
  "test ContextManglerReverse =
     Inr [(0, 0, 0), (1, 65536, 1), (2, 32768, 2), (3, 98304, 3), (4, 16384, 4),
          (5, 81920, 5), (6, 49152, 6), (7, 114688, 7)]"
  "test ContextManglerDescending =
     Inr [(0, 0, 0), (1, 484675, 1), (2, 484674, 2), (3, 484673, 3), (4, 484672, 4),
          (5, 484671, 5), (6, 484670, 6), (7, 484669, 7)]"
  "test ContextManglerMultiplier =
     Inr [(0, 0, 0), (1, 58720280, 1), (2, 58720304, 2), (3, 58720328, 3),
          (4, 58720352, 4), (5, 58720376, 5), (6, 58720400, 6), (7, 58720424, 7)]"
  by code_simp+

text \<open>
  C3. For each of the six classes with its default parameters, the loop of \<^verbatim>\<open>test()\<close> runs
  its eight steps without an exception: the offsets seen are 0, 1, ..., 7, and at every
  step the instance built afresh from \<^verbatim>\<open>context.opaque\<close> has the same offset.
\<close>

theorem advance_consistency:
  "\<exists>tr. test cls = Inr tr \<and>
     map fst tr = [0, 1, 2, 3, 4, 5, 6, 7] \<and>
     map (snd \<circ> snd) tr = [0, 1, 2, 3, 4, 5, 6, 7]"
  by (cases cls) (simp_all add: test_traces)

subsection \<open>Rejected contexts\<close>

text \<open>
  C10. The test \<^verbatim>\<open>context < 0\<close> of \<^verbatim>\<open>ContextManglerMultiplier.unmangle\<close>, made after the bias
  is subtracted, is reached through the constructor: the context 24 is no sentinel, lies
  below the default bias and is rejected; so is the context 8, whose difference from the
  bias is a multiple of 24, so that only the sign test rejects it.
\<close>

theorem multiplier_negative_difference_reachable:
  "(0::int) < 24 \<and> (24::int) < 0xFFFFFFFF \<and>
   24 - bias (params ContextManglerMultiplier []) < 0 \<and>
   new ContextManglerMultiplier 24 [] = Inl (InvalidMultiplier (24 - 0x3800000)) \<and>
   (8 - bias (params ContextManglerMultiplier []))
      mod multiplier (params ContextManglerMultiplier []) = 0 \<and>
   new ContextManglerMultiplier 8 [] = Inl (InvalidMultiplier (8 - 0x3800000))"
  by (simp add: new_def base_init_def)

lemma not_congruent_diff: "(v::int) mod m \<noteq> a mod m \<Longrightarrow> (v - a) mod m \<noteq> 0"
  using mod_eq_dvd_iff [of v m a] by (auto simp: dvd_eq_mod_eq_0)

text \<open>
  C4. With the default bias \<^verbatim>\<open>0x76543\<close>, \<^verbatim>\<open>ContextManglerBiased(1)\<close> raises the "Invalid
  context value" \<^verbatim>\<open>ValueError\<close>; with the defaults 24 and \<^verbatim>\<open>0x3800000\<close>,
  \<^verbatim>\<open>ContextManglerMultiplier(v)\<close> raises it for every \<open>v\<close> strictly between 0 and
  \<^verbatim>\<open>0xFFFFFFFF\<close> that is not congruent to the bias modulo the multiplier. No instance, and so
  no offset, is produced.
\<close>

theorem invalid_context_rejection:
  assumes "0 < v" and "v < 0xFFFFFFFF" and "v mod 24 \<noteq> 0x3800000 mod 24"
  shows "new ContextManglerBiased 1 [] = Inl (InvalidBiased 1) \<and>
         new ContextManglerMultiplier v [] = Inl (InvalidMultiplier (v - 0x3800000))"
proof -
  have "(v - 0x3800000) mod 24 \<noteq> 0"
    using assms(3) by (rule not_congruent_diff)
  with assms(1,2) show ?thesis
    by (simp add: new_def base_init_def Let_def)
qed

theorem invalid_context_rejection_witness:
  "(0::int) < 25 \<and> (25::int) < 0xFFFFFFFF \<and> (25::int) mod 24 \<noteq> 0x3800000 mod 24 \<and>
   new ContextManglerBiased 1 [] = Inl (InvalidBiased 1) \<and>
   new ContextManglerMultiplier 25 [] = Inl (InvalidMultiplier (25 - 0x3800000))"
  using invalid_context_rejection [of 25] by simp

subsection \<open>Sentinels and the terminal state\<close>

text \<open>
  C2. Whatever the class and its constructor arguments, the context 0 gives the offset 0,
  the contexts -1 and \<^verbatim>\<open>0xFFFFFFFF\<close> give the offset -1, and \<^verbatim>\<open>opaque\<close> of these instances is
  0 and -1: \<^verbatim>\<open>mangle\<close> has no part in it, also where it would return another value (the
  default bias) or raise (a limit of 0).
\<close>

theorem sentinel_invariance:
  "new cls 0 args = Inr \<lparr>scheme = params cls args, offset = 0\<rparr> \<and>
   opaque \<lparr>scheme = params cls args, offset = 0\<rparr> = Inr 0 \<and>
   new cls (- 1) args = Inr \<lparr>scheme = params cls args, offset = - 1\<rparr> \<and>
   new cls 0xFFFFFFFF args = Inr \<lparr>scheme = params cls args, offset = - 1\<rparr> \<and>
   opaque \<lparr>scheme = params cls args, offset = - 1\<rparr> = Inr (- 1) \<and>
   mangle (params ContextManglerBiased []) 0 = Inr 0x76543 \<and>
   mangle (params ContextManglerDescending [0]) (- 1) = Inl ZeroDivisionError"
  by (simp add: new_def base_init_def opaque_def)

lemma iadd_terminal: "offset c = - 1 \<Longrightarrow> foldl iadd c ds = c"
  by (induction ds) (simp_all add: iadd_def)

text \<open>
  C5. \<^verbatim>\<open>finish()\<close> and the construction from -1 or \<^verbatim>\<open>0xFFFFFFFF\<close> leave the offset -1; from
  an instance whose offset is -1, any sequence of \<^verbatim>\<open>+=\<close> with any values leaves the offset
  -1, and \<^verbatim>\<open>opaque\<close> is -1 after it. The sequence is arbitrary, so this holds at every point
  of it.
\<close>

theorem terminal_absorption:
  assumes "offset c = - 1"
  shows "offset (finish c0) = - 1 \<and>
         new cls (- 1) args = Inr \<lparr>scheme = params cls args, offset = - 1\<rparr> \<and>
         new cls 0xFFFFFFFF args = Inr \<lparr>scheme = params cls args, offset = - 1\<rparr> \<and>
         offset (foldl iadd c ds) = - 1 \<and>
         opaque (foldl iadd c ds) = Inr (- 1)"
  using assms by (simp add: iadd_terminal finish_def new_def base_init_def opaque_def)

theorem terminal_absorption_witness:
  "offset (finish \<lparr>scheme = Biased 5, offset = 9\<rparr>) = - 1 \<and>
   offset (foldl iadd (finish \<lparr>scheme = Biased 5, offset = 9\<rparr>) [1, - 3, 7]) = - 1 \<and>
   opaque (foldl iadd (finish \<lparr>scheme = Biased 5, offset = 9\<rparr>) [1, - 3, 7]) = Inr (- 1)"
  using terminal_absorption
    [of "finish \<lparr>scheme = Biased 5, offset = 9\<rparr>" "\<lparr>scheme = Biased 5, offset = 9\<rparr>"
        ContextManglerBiased "[5]" "[1, - 3, 7]"]
  by (simp add: finish_def)

subsection \<open>Bit reversal\<close>

lemma reverse_step_arith:
  "reverse_step (v, x) = (2 * v + (if odd x then 1 else 0), x div 2)"
  by (simp add: reverse_step_def Let_def and_one_eq mod2_eq_if or_one_eq drop_bit_Suc)

lemma reverse_funpow_bits:
  "(reverse_step ^^ n) (v, x) = (v', x') \<Longrightarrow>
     x' = drop_bit n x \<and>
     (\<forall>i. bit v' i = (if i < n then bit x (n - 1 - i) else bit v (i - n)))"
proof (induction n arbitrary: v' x')
  case 0
  then show ?case by simp
next
  case (Suc n)
  obtain w y where wy: "(reverse_step ^^ n) (v, x) = (w, y)"
    by (cases "(reverse_step ^^ n) (v, x)")
  from Suc.IH [OF wy] have y: "y = drop_bit n x"
    and w: "\<And>i. bit w i = (if i < n then bit x (n - 1 - i) else bit v (i - n))"
    by simp_all
  from Suc.prems wy have v': "v' = 2 * w + (if odd y then 1 else 0)" and x': "x' = y div 2"
    by (simp_all add: reverse_step_arith)
  have "x' = drop_bit (Suc n) x"
    using x' y by (simp add: drop_bit_eq_div power_Suc2 zdiv_zmult2_eq del: power_Suc)
  moreover have "bit v' i = (if i < Suc n then bit x (Suc n - 1 - i) else bit v (i - Suc n))" for i
  proof (cases i)
    case 0
    have "bit v' 0 = odd y" by (simp add: v' bit_0)
    also have "\<dots> = bit x n" by (simp add: y bit_iff_odd_drop_bit)
    finally show ?thesis using 0 by simp
  next
    case (Suc j)
    have "bit v' (Suc j) = bit w j"
      by (simp add: v' bit_Suc)
    then show ?thesis using Suc w [of j] by (auto simp: Suc_diff_Suc)
  qed
  ultimately show ?case by blast
qed


lemma mangle_Reverse_bits:
  assumes "0 \<le> n"
  shows "\<exists>r. mangle (Reverse n) x = Inr r \<and>
           (\<forall>i. bit r i = (if i < nat n then bit x (nat n - 1 - i) else bit x i))"
proof -
  obtain w y where wy: "(reverse_step ^^ nat n) (0, x) = (w, y)"
    by (cases "(reverse_step ^^ nat n) (0, x)")
  from reverse_funpow_bits [OF wy] have y: "y = drop_bit (nat n) x"
    and w: "\<And>i. bit w i = (i < nat n \<and> bit x (nat n - 1 - i))"
    by simp_all
  have "mangle (Reverse n) x = Inr (w OR push_bit (nat n) y)"
    using assms wy by (simp add: reverse_loop_def)
  moreover have "bit (w OR push_bit (nat n) y) i =
      (if i < nat n then bit x (nat n - 1 - i) else bit x i)" for i
    by (auto simp: bit_or_iff bit_push_bit_iff w y bit_drop_bit_eq)
  ultimately show ?thesis by blast
qed

lemma mangle_Reverse_involution:
  assumes "0 \<le> n"
  shows "\<exists>r. mangle (Reverse n) x = Inr r \<and> mangle (Reverse n) r = Inr x"
proof -
  from mangle_Reverse_bits [OF assms, of x] obtain r where
    r: "mangle (Reverse n) x = Inr r"
    and rb: "\<And>i. bit r i = (if i < nat n then bit x (nat n - 1 - i) else bit x i)"
    by blast
  from mangle_Reverse_bits [OF assms, of r] obtain s where
    s: "mangle (Reverse n) r = Inr s"
    and sb: "\<And>i. bit s i = (if i < nat n then bit r (nat n - 1 - i) else bit r i)"
    by blast
  have "bit s i = bit x i" for i
  proof (cases "i < nat n")
    case True
    then have "nat n - 1 - i < nat n" and "nat n - 1 - (nat n - 1 - i) = i" by arith+
    then show ?thesis using True by (simp add: sb rb)
  next
    case False
    then show ?thesis by (simp add: sb rb)
  qed
  then have "s = x" by (rule bit_eqI)
  with r s show ?thesis by blast
qed

lemma reverse_funpow_nonneg:
  "0 \<le> v \<Longrightarrow> 0 \<le> x \<Longrightarrow> (reverse_step ^^ n) (v, x) = (v', x') \<Longrightarrow> 0 \<le> v' \<and> 0 \<le> x'"
proof (induction n arbitrary: v' x')
  case 0
  then show ?case by simp
next
  case (Suc n)
  obtain w y where wy: "(reverse_step ^^ n) (v, x) = (w, y)"
    by (cases "(reverse_step ^^ n) (v, x)")
  from Suc.IH [OF Suc.prems(1,2) wy] have "0 \<le> w" "0 \<le> y" by simp_all
  moreover from Suc.prems(3) wy
  have "v' = 2 * w + (if odd y then 1 else 0)" "x' = y div 2"
    by (simp_all add: reverse_step_arith)
  ultimately show ?case by (simp add: pos_imp_zdiv_nonneg_iff)
qed

lemma mangle_Reverse_nonneg:
  assumes "0 \<le> n" and "0 \<le> x" and "mangle (Reverse n) x = Inr r"
  shows "0 \<le> r"
proof -
  obtain w y where wy: "(reverse_step ^^ nat n) (0, x) = (w, y)"
    by (cases "(reverse_step ^^ nat n) (0, x)")
  from reverse_funpow_nonneg [OF _ assms(2) wy] have "0 \<le> w" "0 \<le> y" by simp_all
  moreover have "r = w OR push_bit (nat n) y"
    using assms(1,3) wy by (simp add: reverse_loop_def)
  ultimately show ?thesis by simp
qed

text \<open>
  C9. With the default of 17 bits, \<^verbatim>\<open>ContextManglerReverse.unmangle\<close> is \<^verbatim>\<open>mangle\<close> itself, and
  \<^verbatim>\<open>mangle(mangle(o)) == o\<close>: \<^verbatim>\<open>mangle\<close> returns, and applied to its result returns the
  offset it started from. This holds for every integer, so for every offset from 0 on.
\<close>

theorem bitreverse_involution:
  "unmangle (params ContextManglerReverse []) = mangle (params ContextManglerReverse []) \<and>
   (\<exists>m. mangle (params ContextManglerReverse []) offs = Inr m \<and>
        mangle (params ContextManglerReverse []) m = Inr offs)"
proof
  show "unmangle (params ContextManglerReverse []) = mangle (params ContextManglerReverse [])"
    by (rule ext) simp
  show "\<exists>m. mangle (params ContextManglerReverse []) offs = Inr m \<and>
        mangle (params ContextManglerReverse []) m = Inr offs"
    using mangle_Reverse_involution [of 17 offs] by simp
qed

subsection \<open>Round trips\<close>

lemma int_div_nonneg: "0 \<le> a \<Longrightarrow> 0 < b \<Longrightarrow> int_div a b = Inr (a div b)"
  by (cases "a = 0") (simp_all add: int_div_def)

text \<open>
  The round trip of C1 at its first offset: with the default limit \<^verbatim>\<open>0x76543\<close> = 484675,
  \<^verbatim>\<open>ContextManglerDescending.mangle(0)\<close> is 484676 and \<^verbatim>\<open>unmangle(484676)\<close> is 969350, twice the
  limit, not 0.
\<close>

theorem descending_roundtrip_counterexample:
  "mangle (params ContextManglerDescending []) 0 = Inr 484676 \<and>
   unmangle (params ContextManglerDescending []) 484676 = Inr 969350 \<and>
   roundtrip (params ContextManglerDescending []) 0 \<noteq> Inr 0"
  by (simp add: roundtrip_def int_div_def)

lemma roundtrip_Identity: "roundtrip Identity offs = Inr offs"
  by (simp add: roundtrip_def)

lemma roundtrip_Biased: "0 \<le> offs \<Longrightarrow> roundtrip (Biased b) offs = Inr offs"
  by (simp add: roundtrip_def)

lemma roundtrip_EOR: "roundtrip (EOR e) offs = Inr offs"
  by (simp add: roundtrip_def xor.assoc)

lemma roundtrip_Reverse: "0 \<le> n \<Longrightarrow> roundtrip (Reverse n) offs = Inr offs"
  using mangle_Reverse_involution [of n offs] by (auto simp: roundtrip_def)

lemma unmangle_Descending_low:
  "0 \<le> d \<Longrightarrow> d < l \<Longrightarrow> unmangle (Descending l) (d + 1) = Inr (l - d)"
  by (simp add: int_div_nonneg)

lemma roundtrip_Descending:
  assumes "0 < offs" and "offs < l"
  shows "roundtrip (Descending l) offs = Inr offs"
proof -
  have m: "mangle (Descending l) offs = Inr (l - offs + 1)"
    using assms by (simp add: int_div_nonneg)
  have "unmangle (Descending l) (l - offs + 1) = Inr (l - (l - offs))"
    using assms by (intro unmangle_Descending_low) simp_all
  with m show ?thesis by (simp add: roundtrip_def)
qed

lemma roundtrip_Multiplier:
  assumes "0 \<le> offs" and "0 < m"
  shows "roundtrip (Multiplier m b) offs = Inr offs"
proof -
  have "0 \<le> offs * m" using assms by simp
  then have "unmangle (Multiplier m b) (b + offs * m) = Inr offs"
    using assms by (simp add: int_div_nonneg Let_def mult_less_0_iff)
  then show ?thesis by (simp add: roundtrip_def)
qed

text \<open>
  \<^verbatim>\<open>ContextManglerDescending.unmangle\<close> turns a remainder 0 into \<^verbatim>\<open>limit - 0\<close>, a whole limit
  too much, on top of the quotient that \<^verbatim>\<open>mangle\<close> has already raised by one: every multiple
  \<open>k * limit\<close> reads back as \<open>(k + 2) * limit\<close>, whatever the positive limit.
\<close>

lemma roundtrip_Descending_multiple:
  assumes "0 < l" and "0 \<le> k"
  shows "roundtrip (Descending l) (k * l) = Inr ((k + 2) * l)"
proof -
  have "0 \<le> k * l" using assms by simp
  then have m: "mangle (Descending l) (k * l) = Inr ((k + 1) * l + 1)"
    using assms by (simp add: int_div_nonneg algebra_simps)
  have "0 \<le> (k + 1) * l" using assms by simp
  then have "unmangle (Descending l) ((k + 1) * l + 1) = Inr ((k + 2) * l)"
    using assms by (simp add: int_div_nonneg algebra_simps)
  with m show ?thesis by (simp add: roundtrip_def)
qed

text \<open>
  C1. What \<^verbatim>\<open>unmangle(mangle(o))\<close> is for each of the six classes with its default parameters
  and every offset \<open>o\<close> with \<open>0 \<le> o < 10000\<close>: it returns, and the result is \<open>o\<close> in every case
  but one. For \<^verbatim>\<open>ContextManglerDescending\<close> at the offset 0 it is twice the limit, 969350,
  where the claim and the five other classes have 0.
\<close>

theorem roundtrip_default_defect:
  assumes "0 \<le> offs" and "offs < 10000"
  shows "roundtrip (params cls []) offs =
           Inr (if cls = ContextManglerDescending \<and> offs = 0 then 2 * 0x76543 else offs)"
proof (cases cls)
  case ContextManglerIdentity
  then show ?thesis by (simp add: roundtrip_Identity)
next
  case ContextManglerBiased
  then show ?thesis using assms(1) by (simp add: roundtrip_Biased)
next
  case ContextManglerEOR
  then show ?thesis by (simp add: roundtrip_EOR)
next
  case ContextManglerReverse
  then show ?thesis by (simp add: roundtrip_Reverse)
next
  case ContextManglerDescending
  show ?thesis
  proof (cases "offs = 0")
    case True
    with ContextManglerDescending show ?thesis
      using roundtrip_Descending_multiple [of 484675 0] by simp
  next
    case False
    with assms have "0 < offs" "offs < 0x76543" by simp_all
    then show ?thesis using ContextManglerDescending False by (simp add: roundtrip_Descending)
  qed
next
  case ContextManglerMultiplier
  then show ?thesis using assms(1) by (simp add: roundtrip_Multiplier)
qed

theorem roundtrip_default_defect_witness:
  "(0::int) \<le> 0 \<and> (0::int) < 10000 \<and>
   roundtrip (params ContextManglerDescending []) 0 = Inr 969350"
  using roundtrip_default_defect [of 0 ContextManglerDescending] by simp

text \<open>
  The same miss of \<^verbatim>\<open>ContextManglerDescending.unmangle\<close> at a multiple of the limit, outside
  the range of C1, seen through an instance: the offset 484675 reads back as 1454025.
\<close>

lemma descending_limit_not_restored:
  "opaque \<lparr>scheme = params ContextManglerDescending [], offset = 484675\<rparr> = Inr 969351 \<and>
   new ContextManglerDescending 969351 [] =
     Inr \<lparr>scheme = Descending 484675, offset = 1454025\<rparr>"
  by (simp add: opaque_def new_def base_init_def int_div_def)

subsection \<open>The range of the offset\<close>

text \<open>
  C8, as stated, fails, in four ways. \<^verbatim>\<open>__iadd__\<close> adds any integer, so from the start
  instance of the identity mangler \<^verbatim>\<open>context += -5\<close> leaves the offset -5. The constructors
  take any integer as a parameter, and \<^verbatim>\<open>unmangle\<close> then returns a negative offset for an
  accepted context: -2 with the mask -1 from the context 2, -4 with the limit -10 from the
  context 5, -2 with the multiplier -24 and the bias 0 from the context 48. And a context
  below \<open>- 2^32\<close> is still negative after \<open>2^32\<close> is added to it: the identity mangler takes
  \<open>- 2^32 - 5\<close> to the offset -5.
\<close>

theorem offset_invariant_counterexample:
  "new ContextManglerIdentity 0 [] = Inr \<lparr>scheme = Identity, offset = 0\<rparr> \<and>
   offset (foldl apply_call \<lparr>scheme = Identity, offset = 0\<rparr> [Advance (- 5)]) = - 5 \<and>
   new ContextManglerEOR 2 [- 1] = Inr \<lparr>scheme = EOR (- 1), offset = - 2\<rparr> \<and>
   new ContextManglerDescending 5 [- 10] = Inr \<lparr>scheme = Descending (- 10), offset = - 4\<rparr> \<and>
   new ContextManglerMultiplier 48 [- 24, 0] =
     Inr \<lparr>scheme = Multiplier (- 24) 0, offset = - 2\<rparr> \<and>
   new ContextManglerIdentity (- 4294967301) [] = Inr \<lparr>scheme = Identity, offset = - 5\<rparr> \<and>
   \<not> valid_offset (- 5) \<and> \<not> valid_offset (- 2) \<and> \<not> valid_offset (- 4)"
  by (simp add: new_def base_init_def iadd_def valid_offset_def int_div_def Let_def)

lemma unmangle_nonneg:
  assumes "param_range p" and "0 < c" and "unmangle p c = Inr off"
  shows "0 \<le> off"
proof (cases p)
  case Identity
  with assms show ?thesis by simp
next
  case (Biased b)
  with assms show ?thesis by (simp split: if_splits)
next
  case (EOR e)
  with assms show ?thesis by auto
next
  case (Reverse n)
  show ?thesis
  proof (cases "0 \<le> n")
    case True
    with assms Reverse show ?thesis using mangle_Reverse_nonneg [of n c off] by simp
  next
    case False
    with assms Reverse show ?thesis by (simp split: prod.splits)
  qed
next
  case (Descending l)
  with assms have l: "0 < l" by (cases "l = 0") (simp_all add: Let_def)
  have low: "0 \<le> l - (c - 1) mod l"
    using l pos_mod_bound [of l "c - 1"] by linarith
  have "0 \<le> (c - 1) div l" using assms(2) l by (simp add: pos_imp_zdiv_nonneg_iff)
  then have high: "0 \<le> (c - 1) div l * l" using l by simp
  have "off = (l - (c - 1) mod l) + (c - 1) div l * l"
    using assms(2,3) Descending l by (auto simp: int_div_nonneg Let_def)
  with low high show ?thesis by linarith
next
  case (Multiplier m b)
  with assms show ?thesis
    by (auto simp: int_div_nonneg Let_def pos_imp_zdiv_nonneg_iff split: if_splits)
qed

lemma base_init_valid:
  assumes "param_range p" and "- 4294967296 < v" and "base_init p v = Inr c"
  shows "valid_offset (offset c)"
proof -
  consider "v = 0" | "v = - 1 \<or> v = 0xFFFFFFFF" | "v \<noteq> 0" "v \<noteq> - 1" "v \<noteq> 0xFFFFFFFF" by blast
  then show ?thesis
  proof cases
    case 1
    with assms(3) show ?thesis by (auto simp: base_init_def valid_offset_def)
  next
    case 2
    with assms(3) show ?thesis by (auto simp: base_init_def valid_offset_def)
  next
    case 3
    define c' where "c' = (if v < 0 then v + 4294967296 else v)"
    have pos: "0 < c'" using assms(2) 3 by (simp add: c'_def)
    from assms(3) 3 obtain off where "unmangle p c' = Inr off" "offset c = off"
      by (auto simp: base_init_def c'_def Let_def split: sum.splits if_splits)
    with unmangle_nonneg [OF assms(1) pos] show ?thesis by (simp add: valid_offset_def)
  qed
qed

lemma apply_call_valid:
  "valid_offset (offset c) \<Longrightarrow> (\<forall>d. x = Advance d \<longrightarrow> 0 \<le> d) \<Longrightarrow>
     valid_offset (offset (apply_call c x))"
  by (cases x) (auto simp: valid_offset_def iadd_def finish_def)

lemma foldl_apply_call_valid:
  "valid_offset (offset c) \<Longrightarrow> (\<forall>d. Advance d \<in> set calls \<longrightarrow> 0 \<le> d) \<Longrightarrow>
     valid_offset (offset (foldl apply_call c calls))"
proof (induction calls arbitrary: c)
  case Nil
  then show ?case by simp
next
  case (Cons x xs)
  have "valid_offset (offset (apply_call c x))"
    using Cons.prems by (intro apply_call_valid) auto
  then show ?case using Cons.prems by (auto intro: Cons.IH)
qed

text \<open>
  C8, amended. For each of the six classes, with any constructor arguments that leave the
  mask, the limit and the multiplier at 0 or more (and the bias at \<open>- 2^52\<close> or more), every
  32-bit opaque value, signed or unsigned (\<open>- 2^32 < v < 2^32\<close>), that the constructor accepts,
  and every sequence of \<^verbatim>\<open>+=\<close> with values from 0 on and of \<^verbatim>\<open>finish()\<close> calls, the offset is at
  every point of the sequence either at least 0 or exactly -1. The default parameters are
  among these. The invariant itself needs neither the upper bound on the opaque value nor
  the lower bound on the bias: they are the 32-bit domain of the opaque value and the range
  in which the division of \<^verbatim>\<open>unmangle\<close> is exact.
\<close>

theorem offset_invariant:
  assumes "param_range (params cls args)"
    and "- 4294967296 < v" and "v < 4294967296"
    and "new cls v args = Inr c"
    and "\<forall>d. Advance d \<in> set calls \<longrightarrow> 0 \<le> d"
  shows "valid_offset (offset (foldl apply_call c (take k calls)))"
proof -
  have "\<forall>d. Advance d \<in> set (take k calls) \<longrightarrow> 0 \<le> d"
    using assms(5) by (auto dest: in_set_takeD)
  moreover have "valid_offset (offset c)"
    using assms(1,2,4) by (auto simp: new_def intro: base_init_valid)
  ultimately show ?thesis
    by (intro foldl_apply_call_valid)
qed

theorem offset_invariant_witness:
  "param_range (params ContextManglerMultiplier [5, 50]) \<and>
   - 4294967296 < (100::int) \<and> (100::int) < 4294967296 \<and>
   new ContextManglerMultiplier 100 [5, 50] = Inr \<lparr>scheme = Multiplier 5 50, offset = 10\<rparr> \<and>
   (0::int) \<le> 3 \<and> (0::int) \<le> 2 \<and>
   valid_offset (offset (foldl apply_call \<lparr>scheme = Multiplier 5 50, offset = 10\<rparr>
     (take 2 [Advance 3, Finish, Advance 2])))"
proof -
  have n: "new ContextManglerMultiplier 100 [5, 50] =
             Inr \<lparr>scheme = Multiplier 5 50, offset = 10\<rparr>"
    by (simp add: new_def base_init_def int_div_def)
  have h: "\<forall>d. Advance d \<in> set [Advance 3, Finish, Advance 2] \<longrightarrow> 0 \<le> d"
    by auto
  from offset_invariant [OF _ _ _ n h, of 2] n show ?thesis by simp
qed

end
